theory Spec2Isabelle
  imports Main "HOL-Library.Word" "HOL-Library.Signed_Division"
begin

section \<open>Data model of \<open>arduino.cpp\<close>\<close>

text \<open>
  The sketch is one polling loop over global variables. The globals become one record,
  every function of the sketch becomes a function from state to state, and the two
  peripherals the sketch writes to (the LCD and the LED pin) are part of the state: the
  level last written to the LED pin, and the log of all peripheral writes in the order in
  which they were issued.

  \<open>unsigned long\<close> is a 32-bit word, so \<open>-\<close> wraps around and \<open><\<close>, \<open>\<le>\<close> compare unsigned
  values, as in the source. Pin levels are booleans, \<open>HIGH\<close> being \<open>True\<close>.

  \<open>int\<close> is the 16-bit signed integer of the AVR boards the sketch is written for. The
  counters are integers with the wrap-around written out where a result can leave the
  16-bit range, which is at \<open>stopwatchSeconds++\<close>: the stopwatch counts without a bound and
  after 32767 the compiled increment gives -32768. The other two operations cannot
  overflow: \<open>initialCountdownSetting += COUNT_STEP\<close> is applied to a setting that is at most
  300 in every reachable state, and \<open>countdownSeconds--\<close> to a positive value (both shown
  below).
\<close>

type_synonym millis = "32 word"

abbreviation (input) HIGH :: bool where "HIGH \<equiv> True"
abbreviation (input) LOW :: bool where "LOW \<equiv> False"

abbreviation (input) DEBOUNCE_MS :: millis where "DEBOUNCE_MS \<equiv> 50"
abbreviation (input) LONGPRESS_MS :: millis where "LONGPRESS_MS \<equiv> 800"
abbreviation (input) HOLD_REPEAT_MS :: millis where "HOLD_REPEAT_MS \<equiv> 350"
abbreviation (input) TICK_MS :: millis where "TICK_MS \<equiv> 1000"
abbreviation (input) LED_BLINK_MS :: millis where "LED_BLINK_MS \<equiv> 500"

abbreviation (input) INT_MAX :: int where "INT_MAX \<equiv> 32767"
abbreviation (input) INT_MIN :: int where "INT_MIN \<equiv> - 32768"

text \<open>The value an \<open>int\<close> holds after an arithmetic result \<open>x\<close> has been stored in it.\<close>

definition int16 :: "int \<Rightarrow> int" where
  "int16 x = (x + 32768) mod 65536 - 32768"

abbreviation (input) COUNT_STEP :: int where "COUNT_STEP \<equiv> 10"
abbreviation (input) COUNT_MIN :: int where "COUNT_MIN \<equiv> 10"
abbreviation (input) COUNT_MAX :: int where "COUNT_MAX \<equiv> 300"

datatype TimerMode = IDLE | STOPWATCH | COUNTDOWN

text \<open>One write to a peripheral: \<open>lcd.setCursor(col, row)\<close>, \<open>lcd.print(txt)\<close> and
  \<open>digitalWrite(LED_PIN, level)\<close>.\<close>

datatype io = LcdSetCursor nat nat | LcdPrint string | LedWrite bool

text \<open>The globals, in the order of their declarations. \<open>lastShownMode\<close> is optional because
  \<open>setup\<close> stores the out-of-range value \<open>(TimerMode)255\<close> there, which is \<open>None\<close>. The line
  caches are C strings, modelled by their contents up to the terminator.\<close>

record state =
  currentMode :: TimerMode
  stopwatchSeconds :: int
  isStopwatchRunning :: bool
  initialCountdownSetting :: int
  countdownSeconds :: int
  isCountdownRunning :: bool
  countdownFinished :: bool
  lastRawA :: bool
  lastRawB :: bool
  lastDebounceTimeA :: millis
  lastDebounceTimeB :: millis
  stableA :: bool
  stableB :: bool
  pressStartA :: millis
  pressStartB :: millis
  longAengaged :: bool
  longBengaged :: bool
  lastHoldRepeatB :: millis
  lastTick :: millis
  lastLedToggle :: millis
  ledState :: bool
  lastShownMode :: "TimerMode option"
  lastLine0 :: string
  lastLine1 :: string
  ledPin :: bool
  out :: "io list"

definition globals0 :: state where
  "globals0 = \<lparr> currentMode = IDLE, stopwatchSeconds = 0, isStopwatchRunning = False,
     initialCountdownSetting = 10, countdownSeconds = 0, isCountdownRunning = False,
     countdownFinished = False, lastRawA = HIGH, lastRawB = HIGH,
     lastDebounceTimeA = 0, lastDebounceTimeB = 0, stableA = HIGH, stableB = HIGH,
     pressStartA = 0, pressStartB = 0, longAengaged = False, longBengaged = False,
     lastHoldRepeatB = 0, lastTick = 0, lastLedToggle = 0, ledState = LOW,
     lastShownMode = Some IDLE, lastLine0 = [], lastLine1 = [],
     ledPin = LOW, out = [] \<rparr>"

section \<open>Peripheral writes\<close>

definition digitalWrite :: "bool \<Rightarrow> state \<Rightarrow> state" where
  "digitalWrite v s = s\<lparr>ledPin := v, out := out s @ [LedWrite v]\<rparr>"

definition lcd_setCursor :: "nat \<Rightarrow> nat \<Rightarrow> state \<Rightarrow> state" where
  "lcd_setCursor c r s = s\<lparr>out := out s @ [LcdSetCursor c r]\<rparr>"

definition lcd_print :: "string \<Rightarrow> state \<Rightarrow> state" where
  "lcd_print txt s = s\<lparr>out := out s @ [LcdPrint txt]\<rparr>"

text \<open>The writes a state transformer issues when it is run from \<open>s\<close>.\<close>

definition writes :: "(state \<Rightarrow> state) \<Rightarrow> state \<Rightarrow> io list" where
  "writes f s = drop (length (out s)) (out (f s))"

fun is_lcd :: "io \<Rightarrow> bool" where
  "is_lcd (LcdSetCursor c r) = True"
| "is_lcd (LcdPrint txt) = True"
| "is_lcd (LedWrite v) = False"

fun fits16 :: "io \<Rightarrow> bool" where
  "fits16 (LcdPrint txt) = (length txt \<le> 16)"
| "fits16 (LcdSetCursor c r) = True"
| "fits16 (LedWrite v) = True"

section \<open>Formatting\<close>

text \<open>\<open>printf\<close>'s \<open>%d\<close> and \<open>%02d\<close>. The width of \<open>%02d\<close> counts the sign, so a negative
  number is never padded. \<open>snprintf(buf, n, ...)\<close> keeps at most \<open>n - 1\<close> characters.\<close>

definition digit :: "nat \<Rightarrow> char" where
  "digit n = ''0123456789'' ! n"

fun dec :: "nat \<Rightarrow> string" where
  "dec n = (if n < 10 then [digit n] else dec (n div 10) @ [digit (n mod 10)])"

declare dec.simps [simp del]

definition fmt_d :: "int \<Rightarrow> string" where
  "fmt_d n = (if n < 0 then CHR ''-'' # dec (nat (- n)) else dec (nat n))"

definition fmt_02d :: "int \<Rightarrow> string" where
  "fmt_02d n = (if n < 0 then CHR ''-'' # dec (nat (- n))
                else if n < 10 then CHR ''0'' # dec (nat n) else dec (nat n))"

definition snprintf :: "nat \<Rightarrow> string \<Rightarrow> string" where
  "snprintf n txt = take (n - 1) txt"

text \<open>C's \<open>/\<close> and \<open>%\<close> truncate towards zero: \<open>sdiv\<close> and \<open>smod\<close>.\<close>

definition formatTime :: "int \<Rightarrow> string" where
  "formatTime totalSeconds =
     (let m = totalSeconds sdiv 60; s = totalSeconds smod 60
      in fmt_02d m @ '':'' @ fmt_02d s)"

section \<open>The renderer\<close>

definition safePrintLine :: "nat \<Rightarrow> string \<Rightarrow> state \<Rightarrow> state" where
  "safePrintLine row txt s =
     (let cache = (if row = 0 then lastLine0 s else lastLine1 s)
      in if cache \<noteq> txt then
           (let s1 = lcd_print txt (lcd_setCursor 0 row
                       (lcd_print ''                '' (lcd_setCursor 0 row s)))
            in if row = 0 then s1\<lparr>lastLine0 := take 16 txt\<rparr>
               else s1\<lparr>lastLine1 := take 16 txt\<rparr>)
         else s)"

definition updateLCD :: "state \<Rightarrow> state" where
  "updateLCD s =
     (let s1 = (if Some (currentMode s) \<noteq> lastShownMode s
                then s\<lparr>lastLine0 := [], lastLine1 := [],
                       lastShownMode := Some (currentMode s)\<rparr>
                else s)
      in if currentMode s1 = STOPWATCH then
           safePrintLine 1 (snprintf 17 (''     '' @ formatTime (stopwatchSeconds s1)))
             (safePrintLine 0 ''   STOPWATCH'' s1)
         else if currentMode s1 = COUNTDOWN then
           (let s2 = safePrintLine 0 ''   COUNTDOWN'' s1
            in if countdownSeconds s2 > 0 then
                 safePrintLine 1 (snprintf 17 (''     '' @ formatTime (countdownSeconds s2))) s2
               else digitalWrite HIGH (safePrintLine 1 ''   TIME UP!     '' s2))
         else
           safePrintLine 1
             (snprintf 17 (''B : CD For : '' @ fmt_d (initialCountdownSetting s1) @ ''s''))
             (safePrintLine 0 ''A : Stopwatch'' s1))"

text \<open>\<open>setup\<close>: the display initialisation and the pin modes are outside the model; what
  remains is the forced first repaint.\<close>

definition setup_state :: state where
  "setup_state = updateLCD (globals0\<lparr>lastShownMode := None\<rparr>)"

section \<open>The blocks of \<open>loop\<close>\<close>

text \<open>The body of the branch commented \<open>short click A\<close>.\<close>

definition shortClickA :: "state \<Rightarrow> state" where
  "shortClickA s =
     updateLCD
       (if currentMode s \<noteq> STOPWATCH then
          s\<lparr>currentMode := STOPWATCH, isStopwatchRunning := True,
            isCountdownRunning := False, countdownFinished := False\<rparr>
        else s\<lparr>isStopwatchRunning := \<not> isStopwatchRunning s\<rparr>)"

definition debounceA :: "millis \<Rightarrow> bool \<Rightarrow> state \<Rightarrow> state" where
  "debounceA now rawA s =
     (let s1 = (if rawA \<noteq> lastRawA s then s\<lparr>lastDebounceTimeA := now\<rparr> else s);
          s2 = (if now - lastDebounceTimeA s1 > DEBOUNCE_MS \<and> stableA s1 \<noteq> rawA then
                  (let s3 = s1\<lparr>stableA := rawA\<rparr>
                   in if stableA s3 = LOW then s3\<lparr>pressStartA := now, longAengaged := False\<rparr>
                      else (let held = now - pressStartA s3
                            in if \<not> longAengaged s3 \<and> held < LONGPRESS_MS
                               then shortClickA s3 else s3))
                else s1)
      in s2\<lparr>lastRawA := rawA\<rparr>)"

text \<open>The body of the branch commented \<open>short click B\<close>.\<close>

definition shortClickB :: "state \<Rightarrow> state" where
  "shortClickB s =
     (let s1 = s\<lparr>currentMode := COUNTDOWN, isStopwatchRunning := False,
                 countdownFinished := False\<rparr>
      in updateLCD
           (if isCountdownRunning s1 then s1\<lparr>isCountdownRunning := False\<rparr>
            else if countdownSeconds s1 \<le> 0 then
              s1\<lparr>countdownSeconds := initialCountdownSetting s1, isCountdownRunning := True\<rparr>
            else s1\<lparr>isCountdownRunning := True\<rparr>))"

definition debounceB :: "millis \<Rightarrow> bool \<Rightarrow> state \<Rightarrow> state" where
  "debounceB now rawB s =
     (let s1 = (if rawB \<noteq> lastRawB s then s\<lparr>lastDebounceTimeB := now\<rparr> else s);
          s2 = (if now - lastDebounceTimeB s1 > DEBOUNCE_MS \<and> stableB s1 \<noteq> rawB then
                  (let s3 = s1\<lparr>stableB := rawB\<rparr>
                   in if stableB s3 = LOW then
                        s3\<lparr>pressStartB := now, longBengaged := False, lastHoldRepeatB := now\<rparr>
                      else (let held = now - pressStartB s3
                            in if \<not> longBengaged s3 \<and> held < LONGPRESS_MS
                               then shortClickB s3 else s3))
                else s1)
      in s2\<lparr>lastRawB := rawB\<rparr>)"

text \<open>\<open>Hold A\<close>: reset everything.\<close>

definition resetEverything :: "state \<Rightarrow> state" where
  "resetEverything s =
     updateLCD (digitalWrite LOW
       (s\<lparr>longAengaged := True, stopwatchSeconds := 0, countdownSeconds := 0,
          isStopwatchRunning := False, isCountdownRunning := False,
          countdownFinished := False, currentMode := IDLE\<rparr>))"

definition holdA :: "millis \<Rightarrow> state \<Rightarrow> state" where
  "holdA now s =
     (if stableA s = LOW \<and> now - pressStartA s \<ge> LONGPRESS_MS \<and> \<not> longAengaged s
      then resetEverything s else s)"

text \<open>\<open>Hold B\<close>: increase the countdown setting.\<close>

definition increaseCountdownSetting :: "millis \<Rightarrow> state \<Rightarrow> state" where
  "increaseCountdownSetting now s =
     (let s1 = s\<lparr>initialCountdownSetting := initialCountdownSetting s + COUNT_STEP\<rparr>;
          s2 = (if initialCountdownSetting s1 > COUNT_MAX
                then s1\<lparr>initialCountdownSetting := COUNT_MIN\<rparr> else s1);
          s3 = updateLCD (s2\<lparr>currentMode := IDLE\<rparr>)
      in s3\<lparr>lastHoldRepeatB := now\<rparr>)"

definition holdB :: "millis \<Rightarrow> state \<Rightarrow> state" where
  "holdB now s =
     (if stableB s = LOW \<and> now - pressStartB s \<ge> LONGPRESS_MS then
        (let s1 = (if now - lastHoldRepeatB s \<ge> HOLD_REPEAT_MS
                   then increaseCountdownSetting now s else s)
         in s1\<lparr>longBengaged := True\<rparr>)
      else s)"

text \<open>The one-second tick: first the stopwatch, then the countdown.\<close>

definition tickStopwatch :: "state \<Rightarrow> state" where
  "tickStopwatch s =
     (if isStopwatchRunning s then
        (let s1 = s\<lparr>stopwatchSeconds := int16 (stopwatchSeconds s + 1)\<rparr>
         in if currentMode s1 = STOPWATCH then updateLCD s1 else s1)
      else s)"

definition tickCountdown :: "state \<Rightarrow> state" where
  "tickCountdown s =
     (if isCountdownRunning s then
        (if countdownSeconds s > 0 then
           (let s1 = s\<lparr>countdownSeconds := countdownSeconds s - 1\<rparr>;
                s2 = (if currentMode s1 = COUNTDOWN then updateLCD s1 else s1)
            in if countdownSeconds s2 = 0 then
                 updateLCD (s2\<lparr>isCountdownRunning := False, countdownFinished := True\<rparr>)
               else s2)
         else s)
      else s)"

definition tickBody :: "state \<Rightarrow> state" where
  "tickBody s = tickCountdown (tickStopwatch s)"

definition tick :: "millis \<Rightarrow> state \<Rightarrow> state" where
  "tick now s = (if now - lastTick s \<ge> TICK_MS then tickBody (s\<lparr>lastTick := now\<rparr>) else s)"

text \<open>\<open>LED behavior\<close>.\<close>

definition toggleLed :: "millis \<Rightarrow> state \<Rightarrow> state" where
  "toggleLed now s =
     (let s1 = s\<lparr>lastLedToggle := now, ledState := \<not> ledState s\<rparr>
      in digitalWrite (ledState s1) s1)"

definition ledBehavior :: "millis \<Rightarrow> state \<Rightarrow> state" where
  "ledBehavior now s =
     (if isStopwatchRunning s \<or> isCountdownRunning s then
        (if now - lastLedToggle s \<ge> LED_BLINK_MS then toggleLed now s else s)
      else if countdownFinished s then
        (if now - lastLedToggle s \<ge> 700 then toggleLed now s else s)
      else (digitalWrite LOW s)\<lparr>ledState := LOW\<rparr>)"

text \<open>One iteration of \<open>loop\<close>, given what \<open>millis()\<close> and the two \<open>digitalRead\<close>s return.\<close>

definition loop :: "millis \<Rightarrow> bool \<Rightarrow> bool \<Rightarrow> state \<Rightarrow> state" where
  "loop now rawA rawB s =
     updateLCD (ledBehavior now (tick now (holdB now (holdA now
       (debounceB now rawB (debounceA now rawA s))))))"

text \<open>A run of the sketch is \<open>setup\<close> followed by iterations of \<open>loop\<close> on any inputs.\<close>

fun run :: "(millis \<times> bool \<times> bool) list \<Rightarrow> state \<Rightarrow> state" where
  "run [] s = s"
| "run ((now, rawA, rawB) # ins) s = run ins (loop now rawA rawB s)"

inductive reachable :: "state \<Rightarrow> bool" where
  reach_setup: "reachable setup_state"
| reach_loop: "reachable s \<Longrightarrow> reachable (loop now rawA rawB s)"

section \<open>Notions used by the claims\<close>

text \<open>The button events of the specification, and the block of \<open>loop\<close> that each of them
  runs. The first long-press firing of B and its repeats are the same block.\<close>

datatype event = ShortPressA | LongPressStartA | ShortPressB | LongPressStartB | HoldRepeatB

fun fire :: "millis \<Rightarrow> event \<Rightarrow> state \<Rightarrow> state" where
  "fire now ShortPressA s = shortClickA s"
| "fire now LongPressStartA s = resetEverything s"
| "fire now ShortPressB s = shortClickB s"
| "fire now LongPressStartB s = increaseCountdownSetting now s"
| "fire now HoldRepeatB s = increaseCountdownSetting now s"

text \<open>The texts that \<open>updateLCD\<close> hands to \<open>safePrintLine\<close> for row 0 and row 1, read off
  its three branches.\<close>

definition line0Text :: "state \<Rightarrow> string" where
  "line0Text s =
     (case currentMode s of
        STOPWATCH \<Rightarrow> ''   STOPWATCH''
      | COUNTDOWN \<Rightarrow> ''   COUNTDOWN''
      | IDLE \<Rightarrow> ''A : Stopwatch'')"

definition line1Text :: "state \<Rightarrow> string" where
  "line1Text s =
     (case currentMode s of
        STOPWATCH \<Rightarrow> snprintf 17 (''     '' @ formatTime (stopwatchSeconds s))
      | COUNTDOWN \<Rightarrow>
          if countdownSeconds s > 0
          then snprintf 17 (''     '' @ formatTime (countdownSeconds s))
          else ''   TIME UP!     ''
      | IDLE \<Rightarrow> snprintf 17 (''B : CD For : '' @ fmt_d (initialCountdownSetting s) @ ''s''))"

text \<open>The invalidation of the render cache at the head of \<open>updateLCD\<close>.\<close>

definition invalidate :: "state \<Rightarrow> state" where
  "invalidate s =
     (if Some (currentMode s) \<noteq> lastShownMode s
      then s\<lparr>lastLine0 := [], lastLine1 := [], lastShownMode := Some (currentMode s)\<rparr>
      else s)"

text \<open>Adding \<open>k\<close> to every timestamp the sketch has recorded.\<close>

definition shiftTime :: "millis \<Rightarrow> state \<Rightarrow> state" where
  "shiftTime k s =
     s\<lparr>lastDebounceTimeA := lastDebounceTimeA s + k,
       lastDebounceTimeB := lastDebounceTimeB s + k,
       pressStartA := pressStartA s + k,
       pressStartB := pressStartB s + k,
       lastHoldRepeatB := lastHoldRepeatB s + k,
       lastTick := lastTick s + k,
       lastLedToggle := lastLedToggle s + k\<rparr>"

definition shiftInputs :: "millis \<Rightarrow> (millis \<times> bool \<times> bool) list \<Rightarrow> (millis \<times> bool \<times> bool) list" where
  "shiftInputs k ins = map (\<lambda>(now, rawA, rawB). (now + k, rawA, rawB)) ins"

text \<open>What the invariants of the timer state come to on the code: a running stopwatch is
  never shown as countdown and excludes a running countdown, a running countdown is never
  shown as stopwatch, both countdown values stay within the configured limits, and the
  setting is a multiple of the step.\<close>

definition timer_inv :: "state \<Rightarrow> bool" where
  "timer_inv s \<longleftrightarrow>
     (isStopwatchRunning s \<longrightarrow> currentMode s \<noteq> COUNTDOWN \<and> \<not> isCountdownRunning s) \<and>
     (isCountdownRunning s \<longrightarrow> currentMode s \<noteq> STOPWATCH) \<and>
     0 \<le> countdownSeconds s \<and> countdownSeconds s \<le> COUNT_MAX \<and>
     COUNT_MIN \<le> initialCountdownSetting s \<and> initialCountdownSetting s \<le> COUNT_MAX \<and>
     COUNT_STEP dvd initialCountdownSetting s"

subsection \<open>Concrete runs\<close>

text \<open>Button B is held until the setting has been raised 29 times to 300, released, clicked
  once (the countdown starts at 300) and held again until the setting wraps.\<close>

definition hold_to_300 :: "(millis \<times> bool \<times> bool) list" where
  "hold_to_300 =
     [(0, HIGH, LOW), (51, HIGH, LOW)]
     @ map (\<lambda>k. (851 + 350 * of_nat k, HIGH, LOW)) [0..<29]
     @ [(10700, HIGH, HIGH), (10751, HIGH, HIGH)]"

definition click_then_wrap :: "(millis \<times> bool \<times> bool) list" where
  "click_then_wrap =
     [(10800, HIGH, LOW), (10851, HIGH, LOW), (10900, HIGH, HIGH), (10951, HIGH, HIGH),
      (11000, HIGH, LOW), (11051, HIGH, LOW), (11851, HIGH, LOW)]"

text \<open>Button A is clicked (the stopwatch starts), then B is held until its long press fires.\<close>

definition clickA_holdB :: "(millis \<times> bool \<times> bool) list" where
  "clickA_holdB =
     [(0, LOW, HIGH), (51, LOW, HIGH), (100, HIGH, HIGH), (151, HIGH, HIGH),
      (200, HIGH, LOW), (251, HIGH, LOW), (1051, HIGH, LOW)]"

text \<open>Button B is clicked with the setting at 10, and ten ticks pass: the countdown expires.\<close>

definition countdown_expires :: "(millis \<times> bool \<times> bool) list" where
  "countdown_expires =
     [(0, HIGH, LOW), (51, HIGH, LOW), (100, HIGH, HIGH), (151, HIGH, HIGH)]
     @ map (\<lambda>k. (1151 + 1000 * of_nat k, HIGH, HIGH)) [0..<10]"

definition expired :: state where
  "expired = run countdown_expires setup_state"

text \<open>Button A becomes stably pressed at 51 and its raw level goes back up at 800 (at 799
  in the second run), so that the stable release comes 800 (799) after the press.\<close>

definition pressA_800 :: state where
  "pressA_800 = run [(0, LOW, HIGH), (51, LOW, HIGH), (800, HIGH, HIGH)] setup_state"

definition pressA_799 :: state where
  "pressA_799 = run [(0, LOW, HIGH), (51, LOW, HIGH), (799, HIGH, HIGH)] setup_state"

definition pressB_800 :: state where
  "pressB_800 = run [(0, HIGH, LOW), (51, HIGH, LOW), (800, HIGH, HIGH)] setup_state"





section \<open>Frame lemmas: which globals the renderer leaves alone\<close>

lemma safePrintLine_frame [simp]:
  "currentMode (safePrintLine r t s) = currentMode s"
  "stopwatchSeconds (safePrintLine r t s) = stopwatchSeconds s"
  "isStopwatchRunning (safePrintLine r t s) = isStopwatchRunning s"
  "initialCountdownSetting (safePrintLine r t s) = initialCountdownSetting s"
  "countdownSeconds (safePrintLine r t s) = countdownSeconds s"
  "isCountdownRunning (safePrintLine r t s) = isCountdownRunning s"
  "countdownFinished (safePrintLine r t s) = countdownFinished s"
  "lastRawA (safePrintLine r t s) = lastRawA s"
  "lastRawB (safePrintLine r t s) = lastRawB s"
  "lastDebounceTimeA (safePrintLine r t s) = lastDebounceTimeA s"
  "lastDebounceTimeB (safePrintLine r t s) = lastDebounceTimeB s"
  "stableA (safePrintLine r t s) = stableA s"
  "stableB (safePrintLine r t s) = stableB s"
  "pressStartA (safePrintLine r t s) = pressStartA s"
  "pressStartB (safePrintLine r t s) = pressStartB s"
  "longAengaged (safePrintLine r t s) = longAengaged s"
  "longBengaged (safePrintLine r t s) = longBengaged s"
  "lastHoldRepeatB (safePrintLine r t s) = lastHoldRepeatB s"
  "lastTick (safePrintLine r t s) = lastTick s"
  "lastLedToggle (safePrintLine r t s) = lastLedToggle s"
  "ledState (safePrintLine r t s) = ledState s"
  "lastShownMode (safePrintLine r t s) = lastShownMode s"
  "ledPin (safePrintLine r t s) = ledPin s"
  by (simp_all add: safePrintLine_def Let_def lcd_print_def lcd_setCursor_def)

lemma digitalWrite_frame [simp]:
  "currentMode (digitalWrite v s) = currentMode s"
  "stopwatchSeconds (digitalWrite v s) = stopwatchSeconds s"
  "isStopwatchRunning (digitalWrite v s) = isStopwatchRunning s"
  "initialCountdownSetting (digitalWrite v s) = initialCountdownSetting s"
  "countdownSeconds (digitalWrite v s) = countdownSeconds s"
  "isCountdownRunning (digitalWrite v s) = isCountdownRunning s"
  "countdownFinished (digitalWrite v s) = countdownFinished s"
  "lastRawA (digitalWrite v s) = lastRawA s"
  "lastRawB (digitalWrite v s) = lastRawB s"
  "lastDebounceTimeA (digitalWrite v s) = lastDebounceTimeA s"
  "lastDebounceTimeB (digitalWrite v s) = lastDebounceTimeB s"
  "stableA (digitalWrite v s) = stableA s"
  "stableB (digitalWrite v s) = stableB s"
  "pressStartA (digitalWrite v s) = pressStartA s"
  "pressStartB (digitalWrite v s) = pressStartB s"
  "longAengaged (digitalWrite v s) = longAengaged s"
  "longBengaged (digitalWrite v s) = longBengaged s"
  "lastHoldRepeatB (digitalWrite v s) = lastHoldRepeatB s"
  "lastTick (digitalWrite v s) = lastTick s"
  "lastLedToggle (digitalWrite v s) = lastLedToggle s"
  "ledState (digitalWrite v s) = ledState s"
  "lastShownMode (digitalWrite v s) = lastShownMode s"
  "lastLine0 (digitalWrite v s) = lastLine0 s"
  "lastLine1 (digitalWrite v s) = lastLine1 s"
  by (simp_all add: digitalWrite_def)

lemma digitalWrite_writes [simp]:
  "ledPin (digitalWrite v s) = v"
  "out (digitalWrite v s) = out s @ [LedWrite v]"
  by (simp_all add: digitalWrite_def)

lemma updateLCD_frame [simp]:
  "currentMode (updateLCD s) = currentMode s"
  "stopwatchSeconds (updateLCD s) = stopwatchSeconds s"
  "isStopwatchRunning (updateLCD s) = isStopwatchRunning s"
  "initialCountdownSetting (updateLCD s) = initialCountdownSetting s"
  "countdownSeconds (updateLCD s) = countdownSeconds s"
  "isCountdownRunning (updateLCD s) = isCountdownRunning s"
  "countdownFinished (updateLCD s) = countdownFinished s"
  "lastRawA (updateLCD s) = lastRawA s"
  "lastRawB (updateLCD s) = lastRawB s"
  "lastDebounceTimeA (updateLCD s) = lastDebounceTimeA s"
  "lastDebounceTimeB (updateLCD s) = lastDebounceTimeB s"
  "stableA (updateLCD s) = stableA s"
  "stableB (updateLCD s) = stableB s"
  "pressStartA (updateLCD s) = pressStartA s"
  "pressStartB (updateLCD s) = pressStartB s"
  "longAengaged (updateLCD s) = longAengaged s"
  "longBengaged (updateLCD s) = longBengaged s"
  "lastHoldRepeatB (updateLCD s) = lastHoldRepeatB s"
  "lastTick (updateLCD s) = lastTick s"
  "lastLedToggle (updateLCD s) = lastLedToggle s"
  "ledState (updateLCD s) = ledState s"
  by (simp_all add: updateLCD_def Let_def)

lemma updateLCD_lastShownMode [simp]: "lastShownMode (updateLCD s) = Some (currentMode s)"
  by (auto simp: updateLCD_def Let_def)

section \<open>Invariants of the timer state\<close>

lemma timer_inv_updateLCD [simp]: "timer_inv (updateLCD s) = timer_inv s"
  by (simp add: timer_inv_def)

lemma timer_inv_debounceA: "timer_inv s \<Longrightarrow> timer_inv (debounceA now rawA s)"
  by (auto simp: debounceA_def Let_def timer_inv_def shortClickA_def)

lemma timer_inv_debounceB: "timer_inv s \<Longrightarrow> timer_inv (debounceB now rawB s)"
  by (auto simp: debounceB_def Let_def timer_inv_def shortClickB_def)

lemma timer_inv_holdA: "timer_inv s \<Longrightarrow> timer_inv (holdA now s)"
  by (auto simp: holdA_def resetEverything_def timer_inv_def)

lemma timer_inv_holdB: "timer_inv s \<Longrightarrow> timer_inv (holdB now s)"
  by (auto simp: holdB_def increaseCountdownSetting_def Let_def timer_inv_def)

lemma timer_inv_tick: "timer_inv s \<Longrightarrow> timer_inv (tick now s)"
  by (auto simp: tick_def tickBody_def tickStopwatch_def tickCountdown_def Let_def timer_inv_def)

lemma timer_inv_ledBehavior: "timer_inv s \<Longrightarrow> timer_inv (ledBehavior now s)"
  by (auto simp: ledBehavior_def toggleLed_def Let_def timer_inv_def)

lemma timer_inv_loop: "timer_inv s \<Longrightarrow> timer_inv (loop now rawA rawB s)"
  unfolding loop_def
  by (intro timer_inv_debounceA timer_inv_debounceB timer_inv_holdA timer_inv_holdB
        timer_inv_tick timer_inv_ledBehavior timer_inv_updateLCD [THEN iffD2])

lemma timer_inv_setup: "timer_inv setup_state"
  by (simp add: setup_state_def timer_inv_def globals0_def)

lemma reachable_timer_inv: "reachable s \<Longrightarrow> timer_inv s"
  by (induction rule: reachable.induct) (simp_all add: timer_inv_setup timer_inv_loop)

lemma reachable_run: "reachable s \<Longrightarrow> reachable (run ins s)"
  by (induction ins s rule: run.induct) (simp_all add: reach_loop)

section \<open>The timer state machine\<close>

text \<open>
  C6. In any reachable state at most one of the two running flags is set, and this is still
  so after any single button event applied in that state.
\<close>

theorem C6_mode_exclusivity:
  "reachable s \<Longrightarrow>
     \<not> (isStopwatchRunning s \<and> isCountdownRunning s) \<and>
     \<not> (isStopwatchRunning (fire now e s) \<and> isCountdownRunning (fire now e s))"
proof -
  assume "reachable s"
  then have inv: "timer_inv s" by (rule reachable_timer_inv)
  then have "\<not> (isStopwatchRunning s \<and> isCountdownRunning s)"
    by (auto simp: timer_inv_def)
  moreover have "\<not> (isStopwatchRunning (fire now e s) \<and> isCountdownRunning (fire now e s))"
    using inv
    by (cases e)
       (auto simp: timer_inv_def shortClickA_def shortClickB_def resetEverything_def
          increaseCountdownSetting_def Let_def)
  ultimately show ?thesis by blast
qed

theorem C6_mode_exclusivity_witness:
  "reachable (run clickA_holdB setup_state) \<and>
   isStopwatchRunning (run clickA_holdB setup_state) \<and>
   \<not> isCountdownRunning (run clickA_holdB setup_state) \<and>
   \<not> (isStopwatchRunning (fire 1100 ShortPressB (run clickA_holdB setup_state)) \<and>
      isCountdownRunning (fire 1100 ShortPressB (run clickA_holdB setup_state)))"
proof -
  have r: "reachable (run clickA_holdB setup_state)"
    by (rule reachable_run) (rule reach_setup)
  have sw: "isStopwatchRunning (run clickA_holdB setup_state)"
    by code_simp
  show ?thesis
    using r sw C6_mode_exclusivity [OF r, of 1100 ShortPressB] by blast
qed

lemma increaseCountdownSetting_setting:
  "initialCountdownSetting (increaseCountdownSetting now s) =
     (if initialCountdownSetting s + COUNT_STEP > COUNT_MAX then COUNT_MIN
      else initialCountdownSetting s + COUNT_STEP)"
  by (simp add: increaseCountdownSetting_def Let_def)

lemma fold_increase_range:
  "COUNT_MIN \<le> initialCountdownSetting s \<Longrightarrow> initialCountdownSetting s \<le> COUNT_MAX \<Longrightarrow>
     COUNT_MIN \<le> initialCountdownSetting (fold increaseCountdownSetting ts s) \<and>
     initialCountdownSetting (fold increaseCountdownSetting ts s) \<le> COUNT_MAX"
proof (induction ts arbitrary: s)
  case Nil
  then show ?case by simp
next
  case (Cons t ts)
  have "COUNT_MIN \<le> initialCountdownSetting (increaseCountdownSetting t s)"
    and "initialCountdownSetting (increaseCountdownSetting t s) \<le> COUNT_MAX"
    using Cons.prems by (simp_all add: increaseCountdownSetting_setting)
  then show ?case using Cons.IH by simp
qed

text \<open>
  C7. Every firing of the hold-B block adds 10 to the configured duration, except that a
  result above 300 becomes 10; so from a duration in [10, 300], no sequence of firings
  (given by the times at which they happen) leaves [10, 300].
\<close>

theorem C7_countdown_clamp:
  "COUNT_MIN \<le> initialCountdownSetting s \<Longrightarrow> initialCountdownSetting s \<le> COUNT_MAX \<Longrightarrow>
     initialCountdownSetting (increaseCountdownSetting now s) =
       (if initialCountdownSetting s + 10 > 300 then 10 else initialCountdownSetting s + 10) \<and>
     10 \<le> initialCountdownSetting (fold increaseCountdownSetting ts s) \<and>
     initialCountdownSetting (fold increaseCountdownSetting ts s) \<le> 300"
  using fold_increase_range [of s ts] by (simp add: increaseCountdownSetting_setting)

theorem C7_countdown_clamp_witness:
  "COUNT_MIN \<le> initialCountdownSetting (globals0\<lparr>initialCountdownSetting := 290\<rparr>) \<and>
   initialCountdownSetting (globals0\<lparr>initialCountdownSetting := 290\<rparr>) \<le> COUNT_MAX \<and>
   initialCountdownSetting
     (increaseCountdownSetting 851 (globals0\<lparr>initialCountdownSetting := 290\<rparr>)) = 300 \<and>
   initialCountdownSetting
     (fold increaseCountdownSetting [851, 1201]
        (globals0\<lparr>initialCountdownSetting := 290\<rparr>)) = 10"
proof -
  let ?s = "globals0\<lparr>initialCountdownSetting := 290\<rparr>"
  have h1: "COUNT_MIN \<le> initialCountdownSetting ?s" and h2: "initialCountdownSetting ?s \<le> COUNT_MAX"
    by simp_all
  have "initialCountdownSetting (fold increaseCountdownSetting [851, 1201] ?s) = 10"
    by (simp add: increaseCountdownSetting_setting)
  then show ?thesis
    using h1 h2 C7_countdown_clamp [OF h1 h2, of 851 "[851, 1201]"] by simp
qed


lemma int16_overflow: "int16 (INT_MAX + 1) = INT_MIN"
  by (simp add: int16_def)

lemma tickStopwatch_frame [simp]:
  "countdownSeconds (tickStopwatch s) = countdownSeconds s"
  "isCountdownRunning (tickStopwatch s) = isCountdownRunning s"
  "countdownFinished (tickStopwatch s) = countdownFinished s"
  "isStopwatchRunning (tickStopwatch s) = isStopwatchRunning s"
  "currentMode (tickStopwatch s) = currentMode s"
  "stopwatchSeconds (tickStopwatch s) =
     (if isStopwatchRunning s then int16 (stopwatchSeconds s + 1) else stopwatchSeconds s)"
  by (simp_all add: tickStopwatch_def Let_def)

lemma tickCountdown_frame [simp]:
  "stopwatchSeconds (tickCountdown s) = stopwatchSeconds s"
  "isStopwatchRunning (tickCountdown s) = isStopwatchRunning s"
  "currentMode (tickCountdown s) = currentMode s"
  by (simp_all add: tickCountdown_def Let_def)









text \<open>
  C2, as the code has it. In every reachable state a running stopwatch is shown as
  Stopwatch or as Idle, and a running countdown as Countdown or as Idle. A short press of A
  selects Stopwatch and leaves the countdown stopped, a short press of B selects Countdown
  and stops the stopwatch; the hold-B block forces Idle and leaves both running flags as
  they are.
\<close>

theorem C2_running_mode:
  "reachable s \<Longrightarrow>
     (isStopwatchRunning s \<longrightarrow> currentMode s = STOPWATCH \<or> currentMode s = IDLE) \<and>
     (isCountdownRunning s \<longrightarrow> currentMode s = COUNTDOWN \<or> currentMode s = IDLE) \<and>
     currentMode (shortClickA s) = STOPWATCH \<and> \<not> isCountdownRunning (shortClickA s) \<and>
     currentMode (shortClickB s) = COUNTDOWN \<and> \<not> isStopwatchRunning (shortClickB s) \<and>
     currentMode (increaseCountdownSetting now s) = IDLE \<and>
     isStopwatchRunning (increaseCountdownSetting now s) = isStopwatchRunning s \<and>
     isCountdownRunning (increaseCountdownSetting now s) = isCountdownRunning s"
proof -
  assume "reachable s"
  then have inv: "timer_inv s" by (rule reachable_timer_inv)
  have 1: "isStopwatchRunning s \<longrightarrow> currentMode s = STOPWATCH \<or> currentMode s = IDLE"
    using inv by (cases "currentMode s") (simp_all add: timer_inv_def)
  have 2: "isCountdownRunning s \<longrightarrow> currentMode s = COUNTDOWN \<or> currentMode s = IDLE"
    using inv by (cases "currentMode s") (simp_all add: timer_inv_def)
  have 3: "currentMode (shortClickA s) = STOPWATCH \<and> \<not> isCountdownRunning (shortClickA s)"
    using inv by (auto simp: shortClickA_def timer_inv_def)
  have 4: "currentMode (shortClickB s) = COUNTDOWN \<and> \<not> isStopwatchRunning (shortClickB s)"
    by (simp add: shortClickB_def Let_def)
  have 5: "currentMode (increaseCountdownSetting now s) = IDLE \<and>
     isStopwatchRunning (increaseCountdownSetting now s) = isStopwatchRunning s \<and>
     isCountdownRunning (increaseCountdownSetting now s) = isCountdownRunning s"
    by (simp add: increaseCountdownSetting_def Let_def)
  from 1 2 3 4 5 show ?thesis by blast
qed

theorem C2_running_mode_witness:
  "reachable (run clickA_holdB setup_state) \<and>
   isStopwatchRunning (run clickA_holdB setup_state) \<and>
   (currentMode (run clickA_holdB setup_state) = STOPWATCH \<or>
    currentMode (run clickA_holdB setup_state) = IDLE)"
proof -
  have r: "reachable (run clickA_holdB setup_state)"
    by (rule reachable_run) (rule reach_setup)
  have sw: "isStopwatchRunning (run clickA_holdB setup_state)"
    by code_simp
  show ?thesis
    using r sw C2_running_mode [OF r, of 0] by blast
qed

theorem C2_counterexample:
  "reachable (run clickA_holdB setup_state) \<and>
   isStopwatchRunning (run clickA_holdB setup_state) \<and>
   currentMode (run clickA_holdB setup_state) = IDLE"
proof -
  have "reachable (run clickA_holdB setup_state)"
    by (rule reachable_run) (rule reach_setup)
  moreover have "isStopwatchRunning (run clickA_holdB setup_state)"
    by code_simp
  moreover have "currentMode (run clickA_holdB setup_state) = IDLE"
    by code_simp
  ultimately show ?thesis by blast
qed

lemma setting_debounceA [simp]:
  "initialCountdownSetting (debounceA now rawA s) = initialCountdownSetting s"
  by (simp add: debounceA_def Let_def shortClickA_def)

lemma setting_debounceB [simp]:
  "initialCountdownSetting (debounceB now rawB s) = initialCountdownSetting s"
  by (simp add: debounceB_def Let_def shortClickB_def)

lemma setting_holdA [simp]:
  "initialCountdownSetting (holdA now s) = initialCountdownSetting s"
  by (simp add: holdA_def resetEverything_def)

lemma setting_tick [simp]:
  "initialCountdownSetting (tick now s) = initialCountdownSetting s"
  by (simp add: tick_def tickBody_def tickStopwatch_def tickCountdown_def Let_def)

lemma setting_ledBehavior [simp]:
  "initialCountdownSetting (ledBehavior now s) = initialCountdownSetting s"
  by (simp add: ledBehavior_def toggleLed_def Let_def)

lemma remaining_debounceA [simp]:
  "countdownSeconds (debounceA now rawA s) = countdownSeconds s"
  by (simp add: debounceA_def Let_def shortClickA_def)

lemma remaining_debounceB:
  "countdownSeconds s \<le> initialCountdownSetting s \<Longrightarrow>
     countdownSeconds (debounceB now rawB s) \<le> initialCountdownSetting s"
  by (simp add: debounceB_def Let_def shortClickB_def)

lemma remaining_holdA:
  "0 \<le> initialCountdownSetting s \<Longrightarrow> countdownSeconds s \<le> initialCountdownSetting s \<Longrightarrow>
     countdownSeconds (holdA now s) \<le> initialCountdownSetting s"
  by (simp add: holdA_def resetEverything_def)

lemma remaining_holdB [simp]:
  "countdownSeconds (holdB now s) = countdownSeconds s"
  by (simp add: holdB_def increaseCountdownSetting_def Let_def)

lemma setting_holdB:
  "COUNT_STEP dvd initialCountdownSetting s \<Longrightarrow> initialCountdownSetting s \<le> COUNT_MAX \<Longrightarrow>
     initialCountdownSetting s \<le> initialCountdownSetting (holdB now s) \<or>
     initialCountdownSetting s = COUNT_MAX \<and> initialCountdownSetting (holdB now s) = COUNT_MIN"
  by (auto simp: holdB_def increaseCountdownSetting_def Let_def)

lemma remaining_tick:
  "countdownSeconds (tick now s) \<le> countdownSeconds s"
  by (simp add: tick_def tickBody_def tickCountdown_def Let_def)

lemma remaining_ledBehavior [simp]:
  "countdownSeconds (ledBehavior now s) = countdownSeconds s"
  by (simp add: ledBehavior_def toggleLed_def Let_def)

lemma loop_remaining_le_setting:
  assumes inv: "timer_inv s" and le: "countdownSeconds s \<le> initialCountdownSetting s"
  shows "countdownSeconds (loop now rawA rawB s) \<le> initialCountdownSetting (loop now rawA rawB s) \<or>
         initialCountdownSetting s = COUNT_MAX \<and>
         initialCountdownSetting (loop now rawA rawB s) = COUNT_MIN"
proof -
  let ?s2 = "debounceB now rawB (debounceA now rawA s)"
  let ?s3 = "holdA now ?s2"
  let ?s4 = "holdB now ?s3"
  have set3: "initialCountdownSetting ?s3 = initialCountdownSetting s" by simp
  have "countdownSeconds ?s2 \<le> initialCountdownSetting s"
    using remaining_debounceB [of "debounceA now rawA s" now rawB] le by simp
  then have rem3: "countdownSeconds ?s3 \<le> initialCountdownSetting s"
    using remaining_holdA [of ?s2 now] inv by (simp add: timer_inv_def)
  have fin_set: "initialCountdownSetting (loop now rawA rawB s) = initialCountdownSetting ?s4"
    by (simp add: loop_def)
  have fin_rem: "countdownSeconds (loop now rawA rawB s) \<le> countdownSeconds ?s3"
    using remaining_tick [of now ?s4] by (simp add: loop_def)
  have "initialCountdownSetting ?s3 \<le> initialCountdownSetting ?s4 \<or>
        initialCountdownSetting ?s3 = COUNT_MAX \<and> initialCountdownSetting ?s4 = COUNT_MIN"
    using inv set3 by (intro setting_holdB) (simp_all add: timer_inv_def)
  then show ?thesis
    using set3 rem3 fin_set fin_rem by auto
qed

text \<open>
  C1, as the code has it. In every reachable state the remaining counter is in [0, 300]
  and the configured duration is a multiple of 10 in [10, 300]. An iteration of the loop
  keeps the remaining counter at or below the configured duration, unless it is an
  iteration in which the hold-B block wraps the configured duration from 300 to 10.
\<close>

theorem C1_remaining_range:
  "reachable s \<Longrightarrow>
     0 \<le> countdownSeconds s \<and> countdownSeconds s \<le> 300 \<and>
     10 \<le> initialCountdownSetting s \<and> initialCountdownSetting s \<le> 300 \<and>
     10 dvd initialCountdownSetting s \<and>
     (countdownSeconds s \<le> initialCountdownSetting s \<longrightarrow>
        countdownSeconds (loop now rawA rawB s) \<le> initialCountdownSetting (loop now rawA rawB s) \<or>
        initialCountdownSetting s = 300 \<and> initialCountdownSetting (loop now rawA rawB s) = 10)"
proof -
  assume "reachable s"
  then have inv: "timer_inv s" by (rule reachable_timer_inv)
  show ?thesis
    using inv loop_remaining_le_setting [OF inv, of now rawA rawB]
    by (simp add: timer_inv_def)
qed

theorem C1_remaining_range_witness:
  "reachable (run hold_to_300 setup_state) \<and>
   countdownSeconds (run hold_to_300 setup_state) \<le> initialCountdownSetting (run hold_to_300 setup_state) \<and>
   initialCountdownSetting (run hold_to_300 setup_state) = 300 \<and>
   0 \<le> countdownSeconds (loop 10800 HIGH LOW (run hold_to_300 setup_state)) \<and>
   countdownSeconds (loop 10800 HIGH LOW (run hold_to_300 setup_state))
     \<le> initialCountdownSetting (loop 10800 HIGH LOW (run hold_to_300 setup_state))"
proof -
  let ?s = "run hold_to_300 setup_state"
  have r: "reachable ?s"
    by (rule reachable_run) (rule reach_setup)
  have r': "reachable (loop 10800 HIGH LOW ?s)"
    using r by (rule reach_loop)
  have v: "countdownSeconds ?s = 0" "initialCountdownSetting ?s = 300"
    by code_simp+
  have w: "initialCountdownSetting (loop 10800 HIGH LOW ?s) = 300"
    by code_simp
  show ?thesis
    using r v w C1_remaining_range [OF r, of 10800 HIGH LOW] C1_remaining_range [OF r', of 0 HIGH HIGH]
    by simp
qed

theorem C1_counterexample:
  "reachable (run (hold_to_300 @ click_then_wrap) setup_state) \<and>
   initialCountdownSetting (run (hold_to_300 @ click_then_wrap) setup_state) = 10 \<and>
   countdownSeconds (run (hold_to_300 @ click_then_wrap) setup_state) = 299"
proof -
  have "reachable (run (hold_to_300 @ click_then_wrap) setup_state)"
    by (rule reachable_run) (rule reach_setup)
  moreover have "initialCountdownSetting (run (hold_to_300 @ click_then_wrap) setup_state) = 10"
    by code_simp
  moreover have "countdownSeconds (run (hold_to_300 @ click_then_wrap) setup_state) = 299"
    by code_simp
  ultimately show ?thesis by blast
qed

section \<open>Properties of the renderer\<close>

lemma safePrintLine_same:
  "(if row = 0 then lastLine0 s else lastLine1 s) = txt \<Longrightarrow> safePrintLine row txt s = s"
  by (simp add: safePrintLine_def)

lemma safePrintLine_row0 [simp]:
  "lastLine1 (safePrintLine 0 txt s) = lastLine1 s"
  "length txt \<le> 16 \<Longrightarrow> lastLine0 (safePrintLine 0 txt s) = txt"
  by (simp_all add: safePrintLine_def Let_def lcd_print_def lcd_setCursor_def)

lemma safePrintLine_row1 [simp]:
  "lastLine0 (safePrintLine (Suc 0) txt s) = lastLine0 s"
  "length txt \<le> 16 \<Longrightarrow> lastLine1 (safePrintLine (Suc 0) txt s) = txt"
  by (simp_all add: safePrintLine_def Let_def lcd_print_def lcd_setCursor_def)

lemma safePrintLine_out:
  "out (safePrintLine row txt s) =
     out s @ (if (if row = 0 then lastLine0 s else lastLine1 s) \<noteq> txt
              then [LcdSetCursor 0 row, LcdPrint ''                '',
                    LcdSetCursor 0 row, LcdPrint txt]
              else [])"
  by (simp add: safePrintLine_def Let_def lcd_print_def lcd_setCursor_def)

lemma invalidate_frame [simp]:
  "currentMode (invalidate s) = currentMode s"
  "out (invalidate s) = out s"
  "ledPin (invalidate s) = ledPin s"
  by (simp_all add: invalidate_def)

lemma invalidate_same: "lastShownMode s = Some (currentMode s) \<Longrightarrow> invalidate s = s"
  by (simp add: invalidate_def)

lemma updateLCD_texts:
  "updateLCD s =
     (let s2 = safePrintLine 1 (line1Text s) (safePrintLine 0 (line0Text s) (invalidate s))
      in if currentMode s = COUNTDOWN \<and> countdownSeconds s \<le> 0
         then digitalWrite HIGH s2 else s2)"
  by (cases "currentMode s")
     (simp_all add: updateLCD_def invalidate_def line0Text_def line1Text_def Let_def)

lemma length_line0Text: "length (line0Text s) \<le> 16"
  by (cases "currentMode s") (simp_all add: line0Text_def)

lemma length_line1Text: "length (line1Text s) \<le> 16"
  by (cases "currentMode s") (simp_all add: line1Text_def snprintf_def)

lemma lineText_updateLCD [simp]:
  "line0Text (updateLCD s) = line0Text s"
  "line1Text (updateLCD s) = line1Text s"
  by (cases "currentMode s"; simp add: line0Text_def line1Text_def)+

lemma updateLCD_caches:
  "lastLine0 (updateLCD s) = line0Text s"
  "lastLine1 (updateLCD s) = line1Text s"
  by (simp_all add: updateLCD_texts Let_def digitalWrite_def length_line0Text length_line1Text)

lemma updateLCD_ledPin:
  "ledPin (updateLCD s) =
     (if currentMode s = COUNTDOWN \<and> countdownSeconds s \<le> 0 then HIGH else ledPin s)"
  by (simp add: updateLCD_texts Let_def)

lemma updateLCD_out:
  "out (updateLCD s) =
     out s
     @ (if lastLine0 (invalidate s) \<noteq> line0Text s
        then [LcdSetCursor 0 0, LcdPrint ''                '',
              LcdSetCursor 0 0, LcdPrint (line0Text s)] else [])
     @ (if lastLine1 (invalidate s) \<noteq> line1Text s
        then [LcdSetCursor 0 1, LcdPrint ''                '',
              LcdSetCursor 0 1, LcdPrint (line1Text s)] else [])
     @ (if currentMode s = COUNTDOWN \<and> countdownSeconds s \<le> 0 then [LedWrite HIGH] else [])"
  by (simp add: updateLCD_texts Let_def safePrintLine_out)

lemma updateLCD_twice:
  "updateLCD (updateLCD s) =
     (if currentMode s = COUNTDOWN \<and> countdownSeconds s \<le> 0
      then digitalWrite HIGH (updateLCD s) else updateLCD s)"
proof -
  let ?u = "updateLCD s"
  have "invalidate ?u = ?u"
    by (rule invalidate_same) simp
  moreover have "safePrintLine 0 (line0Text s) ?u = ?u"
    by (rule safePrintLine_same) (simp add: updateLCD_caches)
  moreover have "safePrintLine 1 (line1Text s) ?u = ?u"
    by (rule safePrintLine_same) (simp add: updateLCD_caches)
  ultimately show ?thesis
    by (subst updateLCD_texts) (simp add: Let_def)
qed

lemma writes_updateLCD_twice:
  "writes updateLCD (updateLCD s) =
     (if currentMode s = COUNTDOWN \<and> countdownSeconds s \<le> 0 then [LedWrite HIGH] else [])"
  by (simp add: writes_def updateLCD_twice)

text \<open>
  C5, as the code has it. For every state, a second invocation of the renderer with the
  state unchanged issues no display write; it issues no LED write either unless the mode
  is Countdown with no time remaining.
\<close>

theorem C5_render_idempotent:
  "filter is_lcd (writes updateLCD (updateLCD s)) = [] \<and>
   (\<not> (currentMode s = COUNTDOWN \<and> countdownSeconds s \<le> 0) \<longrightarrow>
      writes updateLCD (updateLCD s) = [])"
  by (simp add: writes_updateLCD_twice)

theorem C5_render_idempotent_witness:
  "\<not> (currentMode setup_state = COUNTDOWN \<and> countdownSeconds setup_state \<le> 0) \<and>
   writes updateLCD (updateLCD setup_state) = []"
proof -
  have h: "\<not> (currentMode setup_state = COUNTDOWN \<and> countdownSeconds setup_state \<le> 0)"
    by (simp add: setup_state_def globals0_def)
  show ?thesis
    using h C5_render_idempotent [of setup_state] by blast
qed

theorem C5_counterexample:
  "reachable expired \<and> writes updateLCD (updateLCD expired) = [LedWrite HIGH]"
proof -
  have "reachable expired"
    unfolding expired_def by (rule reachable_run) (rule reach_setup)
  moreover have "writes updateLCD (updateLCD expired) = [LedWrite HIGH]"
    by code_simp
  ultimately show ?thesis by blast
qed

lemma fits16_writes_updateLCD: "list_all fits16 (writes updateLCD s)"
  by (simp add: writes_def updateLCD_out length_line0Text length_line1Text)

lemma writes_updateLCD:
  "writes updateLCD s =
     (if lastLine0 (invalidate s) \<noteq> line0Text s
      then [LcdSetCursor 0 0, LcdPrint ''                '',
            LcdSetCursor 0 0, LcdPrint (line0Text s)] else [])
     @ (if lastLine1 (invalidate s) \<noteq> line1Text s
        then [LcdSetCursor 0 1, LcdPrint ''                '',
              LcdSetCursor 0 1, LcdPrint (line1Text s)] else [])
     @ (if currentMode s = COUNTDOWN \<and> countdownSeconds s \<le> 0 then [LedWrite HIGH] else [])"
  by (simp add: writes_def updateLCD_out)

lemma writes_safePrintLine:
  "writes (safePrintLine row txt) s =
     (if (if row = 0 then lastLine0 s else lastLine1 s) \<noteq> txt
      then [LcdSetCursor 0 row, LcdPrint ''                '',
            LcdSetCursor 0 row, LcdPrint txt]
      else [])"
  by (simp add: writes_def safePrintLine_out)

lemma safePrintLine_cache:
  "length txt \<le> 16 \<Longrightarrow>
     (if row = 0 then lastLine0 (safePrintLine row txt s)
      else lastLine1 (safePrintLine row txt s)) = txt"
  by (simp add: safePrintLine_def Let_def lcd_print_def lcd_setCursor_def)

text \<open>
  C10. In every state, the two texts the renderer hands to \<open>safePrintLine\<close> are at most 16
  characters long. \<open>safePrintLine\<close> writes a text to its row exactly when it differs from
  the cache of that row, as two cursor moves, sixteen blanks and the text itself, and then
  the cache of that row holds the text it was given, whole if it has at most 16 characters.
  So the renderer's writes are those two groups (for the rows whose text differs from the
  cache after the invalidation) and the LED write of the time-up branch, every display write
  fits the 16 columns, and afterwards each line cache holds exactly the text of its row.
\<close>

theorem C10_lines_fit:
  "updateLCD s =
     (let s2 = safePrintLine 1 (line1Text s) (safePrintLine 0 (line0Text s) (invalidate s))
      in if currentMode s = COUNTDOWN \<and> countdownSeconds s \<le> 0
         then digitalWrite HIGH s2 else s2) \<and>
   length (line0Text s) \<le> 16 \<and> length (line1Text s) \<le> 16 \<and>
   writes (safePrintLine row txt) s =
     (if (if row = 0 then lastLine0 s else lastLine1 s) \<noteq> txt
      then [LcdSetCursor 0 row, LcdPrint ''                '',
            LcdSetCursor 0 row, LcdPrint txt]
      else []) \<and>
   (length txt \<le> 16 \<longrightarrow>
      (if row = 0 then lastLine0 (safePrintLine row txt s)
       else lastLine1 (safePrintLine row txt s)) = txt) \<and>
   writes updateLCD s =
     (if lastLine0 (invalidate s) \<noteq> line0Text s
      then [LcdSetCursor 0 0, LcdPrint ''                '',
            LcdSetCursor 0 0, LcdPrint (line0Text s)] else [])
     @ (if lastLine1 (invalidate s) \<noteq> line1Text s
        then [LcdSetCursor 0 1, LcdPrint ''                '',
              LcdSetCursor 0 1, LcdPrint (line1Text s)] else [])
     @ (if currentMode s = COUNTDOWN \<and> countdownSeconds s \<le> 0 then [LedWrite HIGH] else []) \<and>
   lastLine0 (updateLCD s) = line0Text s \<and> lastLine1 (updateLCD s) = line1Text s \<and>
   list_all fits16 (writes updateLCD s)"
proof (intro conjI)
  show "updateLCD s =
     (let s2 = safePrintLine 1 (line1Text s) (safePrintLine 0 (line0Text s) (invalidate s))
      in if currentMode s = COUNTDOWN \<and> countdownSeconds s \<le> 0
         then digitalWrite HIGH s2 else s2)"
    by (rule updateLCD_texts)
  show "writes (safePrintLine row txt) s =
     (if (if row = 0 then lastLine0 s else lastLine1 s) \<noteq> txt
      then [LcdSetCursor 0 row, LcdPrint ''                '',
            LcdSetCursor 0 row, LcdPrint txt]
      else [])"
    by (rule writes_safePrintLine)
  show "length txt \<le> 16 \<longrightarrow>
      (if row = 0 then lastLine0 (safePrintLine row txt s)
       else lastLine1 (safePrintLine row txt s)) = txt"
    using safePrintLine_cache [of "txt" row s] by blast
  show "writes updateLCD s =
     (if lastLine0 (invalidate s) \<noteq> line0Text s
      then [LcdSetCursor 0 0, LcdPrint ''                '',
            LcdSetCursor 0 0, LcdPrint (line0Text s)] else [])
     @ (if lastLine1 (invalidate s) \<noteq> line1Text s
        then [LcdSetCursor 0 1, LcdPrint ''                '',
              LcdSetCursor 0 1, LcdPrint (line1Text s)] else [])
     @ (if currentMode s = COUNTDOWN \<and> countdownSeconds s \<le> 0 then [LedWrite HIGH] else [])"
    by (rule writes_updateLCD)
qed (simp_all add: length_line0Text length_line1Text updateLCD_caches fits16_writes_updateLCD)

theorem C10_lines_fit_witness:
  "length ''B : CD For : 300'' \<le> 16 \<and>
   lastLine1 (safePrintLine 1 ''B : CD For : 300'' (globals0\<lparr>initialCountdownSetting := 300\<rparr>))
     = ''B : CD For : 300'' \<and>
   line1Text (globals0\<lparr>initialCountdownSetting := 300\<rparr>) = ''B : CD For : 300'' \<and>
   writes updateLCD (globals0\<lparr>initialCountdownSetting := 300\<rparr>)
     = [LcdSetCursor 0 0, LcdPrint ''                '',
        LcdSetCursor 0 0, LcdPrint ''A : Stopwatch'',
        LcdSetCursor 0 1, LcdPrint ''                '',
        LcdSetCursor 0 1, LcdPrint ''B : CD For : 300''] \<and>
   lastLine0 (updateLCD (globals0\<lparr>initialCountdownSetting := 300\<rparr>)) = ''A : Stopwatch'' \<and>
   lastLine1 (updateLCD (globals0\<lparr>initialCountdownSetting := 300\<rparr>)) = ''B : CD For : 300''"
proof -
  let ?s = "globals0\<lparr>initialCountdownSetting := 300\<rparr>"
  have len: "length ''B : CD For : 300'' \<le> 16" by simp
  have 0: "line0Text ?s = ''A : Stopwatch''" by code_simp
  have 1: "line1Text ?s = ''B : CD For : 300''" by code_simp
  have c: "lastLine0 (invalidate ?s) = []" "lastLine1 (invalidate ?s) = []"
    "currentMode ?s = IDLE"
    by (simp_all add: invalidate_def globals0_def)
  show ?thesis
    using len 0 1 c C10_lines_fit [of ?s 1 "''B : CD For : 300''", THEN conjunct2]
    by simp
qed

lemma loop_time_up_led:
  "currentMode (loop now rawA rawB s) = COUNTDOWN \<Longrightarrow>
   countdownSeconds (loop now rawA rawB s) \<le> 0 \<Longrightarrow> ledPin (loop now rawA rawB s) = HIGH"
  by (simp add: loop_def updateLCD_ledPin)

text \<open>
  C3. In the state left by an expired countdown (mode Countdown, nothing remaining, neither
  timer running, finished flag set), the blink branch toggles \<open>ledState\<close> every 700 time
  units and writes it to the pin, but the renderer, which ends every iteration, writes
  \<open>HIGH\<close> again: the pin is high at the end of every iteration.
\<close>

theorem C3_time_up_led_held_on:
  "reachable expired \<and> currentMode expired = COUNTDOWN \<and> countdownSeconds expired = 0 \<and>
   \<not> isStopwatchRunning expired \<and> \<not> isCountdownRunning expired \<and> countdownFinished expired \<and>
   ledPin expired = HIGH \<and>
   writes (loop 10851 HIGH HIGH) expired = [LedWrite HIGH, LedWrite HIGH] \<and>
   ledPin (loop 10851 HIGH HIGH expired) = HIGH \<and>
   writes (loop 11551 HIGH HIGH) (loop 10851 HIGH HIGH expired) = [LedWrite LOW, LedWrite HIGH] \<and>
   ledState (loop 11551 HIGH HIGH (loop 10851 HIGH HIGH expired)) = LOW \<and>
   ledPin (loop 11551 HIGH HIGH (loop 10851 HIGH HIGH expired)) = HIGH \<and>
   writes (loop 11552 HIGH HIGH) (loop 11551 HIGH HIGH (loop 10851 HIGH HIGH expired))
     = [LedWrite HIGH] \<and>
   ledPin (loop 11552 HIGH HIGH (loop 11551 HIGH HIGH (loop 10851 HIGH HIGH expired))) = HIGH"
proof -
  have "reachable expired"
    unfolding expired_def by (rule reachable_run) (rule reach_setup)
  moreover have "currentMode expired = COUNTDOWN \<and> countdownSeconds expired = 0 \<and>
     \<not> isStopwatchRunning expired \<and> \<not> isCountdownRunning expired \<and> countdownFinished expired \<and>
     ledPin expired = HIGH"
    by code_simp
  moreover have "writes (loop 10851 HIGH HIGH) expired = [LedWrite HIGH, LedWrite HIGH] \<and>
     ledPin (loop 10851 HIGH HIGH expired) = HIGH"
    by code_simp
  moreover have
    "writes (loop 11551 HIGH HIGH) (loop 10851 HIGH HIGH expired) = [LedWrite LOW, LedWrite HIGH] \<and>
     ledState (loop 11551 HIGH HIGH (loop 10851 HIGH HIGH expired)) = LOW \<and>
     ledPin (loop 11551 HIGH HIGH (loop 10851 HIGH HIGH expired)) = HIGH"
    by code_simp
  moreover have
    "writes (loop 11552 HIGH HIGH) (loop 11551 HIGH HIGH (loop 10851 HIGH HIGH expired))
       = [LedWrite HIGH] \<and>
     ledPin (loop 11552 HIGH HIGH (loop 11551 HIGH HIGH (loop 10851 HIGH HIGH expired))) = HIGH"
    by code_simp
  ultimately show ?thesis by blast
qed

section \<open>Short and long presses\<close>

lemma debounceB_stableA [simp]: "stableA (debounceB now rawB s) = stableA s"
  by (simp add: debounceB_def Let_def shortClickB_def)

lemma holdA_stableB [simp]: "stableB (holdA now s) = stableB s"
  by (simp add: holdA_def resetEverything_def)

lemma debounceA_release:
  assumes "stableA s = LOW" "lastRawA s = HIGH" "DEBOUNCE_MS < now - lastDebounceTimeA s"
  shows "LONGPRESS_MS \<le> now - pressStartA s \<Longrightarrow>
           debounceA now HIGH s = s\<lparr>stableA := HIGH, lastRawA := HIGH\<rparr>"
    and "\<not> longAengaged s \<Longrightarrow> now - pressStartA s < LONGPRESS_MS \<Longrightarrow>
           debounceA now HIGH s = (shortClickA (s\<lparr>stableA := HIGH\<rparr>))\<lparr>lastRawA := HIGH\<rparr>"
  using assms by (simp_all add: debounceA_def Let_def not_less [symmetric])

lemma debounceB_release:
  assumes "stableB s = LOW" "lastRawB s = HIGH" "DEBOUNCE_MS < now - lastDebounceTimeB s"
  shows "LONGPRESS_MS \<le> now - pressStartB s \<Longrightarrow>
           debounceB now HIGH s = s\<lparr>stableB := HIGH, lastRawB := HIGH\<rparr>"
    and "\<not> longBengaged s \<Longrightarrow> now - pressStartB s < LONGPRESS_MS \<Longrightarrow>
           debounceB now HIGH s = (shortClickB (s\<lparr>stableB := HIGH\<rparr>))\<lparr>lastRawB := HIGH\<rparr>"
  using assms by (simp_all add: debounceB_def Let_def not_less [symmetric])

text \<open>
  C4, as the code has it. For either button, take an iteration in which the debouncer
  accepts the release of a stable press (the raw level has been high for more than the
  debounce window). If the press has been held for the long-press threshold or more, exactly
  800 included, the iteration only records the release: no short click is run, and the
  long-press block of that button does not run either. If it has been held for less than
  800 and no long press is engaged, the short click is run.
\<close>

theorem C4_release_at_threshold:
  "(stableA s = LOW \<and> lastRawA s = HIGH \<and> DEBOUNCE_MS < now - lastDebounceTimeA s \<longrightarrow>
      (LONGPRESS_MS \<le> now - pressStartA s \<longrightarrow>
         debounceA now HIGH s = s\<lparr>stableA := HIGH, lastRawA := HIGH\<rparr> \<and>
         holdA now (debounceB now rawB (debounceA now HIGH s))
           = debounceB now rawB (debounceA now HIGH s)) \<and>
      (\<not> longAengaged s \<and> now - pressStartA s < LONGPRESS_MS \<longrightarrow>
         debounceA now HIGH s = (shortClickA (s\<lparr>stableA := HIGH\<rparr>))\<lparr>lastRawA := HIGH\<rparr>)) \<and>
   (stableB s = LOW \<and> lastRawB s = HIGH \<and> DEBOUNCE_MS < now - lastDebounceTimeB s \<longrightarrow>
      (LONGPRESS_MS \<le> now - pressStartB s \<longrightarrow>
         debounceB now HIGH s = s\<lparr>stableB := HIGH, lastRawB := HIGH\<rparr> \<and>
         holdB now (holdA now (debounceB now HIGH s)) = holdA now (debounceB now HIGH s)) \<and>
      (\<not> longBengaged s \<and> now - pressStartB s < LONGPRESS_MS \<longrightarrow>
         debounceB now HIGH s = (shortClickB (s\<lparr>stableB := HIGH\<rparr>))\<lparr>lastRawB := HIGH\<rparr>))"
proof (intro conjI impI; (elim conjE)?)
  assume a: "stableA s = LOW" "lastRawA s = HIGH" "DEBOUNCE_MS < now - lastDebounceTimeA s"
  { assume h: "LONGPRESS_MS \<le> now - pressStartA s"
    show "debounceA now HIGH s = s\<lparr>stableA := HIGH, lastRawA := HIGH\<rparr>"
      using a h by (rule debounceA_release)
    then show "holdA now (debounceB now rawB (debounceA now HIGH s))
           = debounceB now rawB (debounceA now HIGH s)"
      by (simp add: holdA_def) }
  { assume "\<not> longAengaged s" "now - pressStartA s < LONGPRESS_MS"
    with a show "debounceA now HIGH s = (shortClickA (s\<lparr>stableA := HIGH\<rparr>))\<lparr>lastRawA := HIGH\<rparr>"
      by (rule debounceA_release) }
next
  assume b: "stableB s = LOW" "lastRawB s = HIGH" "DEBOUNCE_MS < now - lastDebounceTimeB s"
  { assume h: "LONGPRESS_MS \<le> now - pressStartB s"
    show "debounceB now HIGH s = s\<lparr>stableB := HIGH, lastRawB := HIGH\<rparr>"
      using b h by (rule debounceB_release)
    then show "holdB now (holdA now (debounceB now HIGH s)) = holdA now (debounceB now HIGH s)"
      by (simp add: holdB_def) }
  { assume "\<not> longBengaged s" "now - pressStartB s < LONGPRESS_MS"
    with b show "debounceB now HIGH s = (shortClickB (s\<lparr>stableB := HIGH\<rparr>))\<lparr>lastRawB := HIGH\<rparr>"
      by (rule debounceB_release) }
qed

theorem C4_release_at_threshold_witness:
  "stableA pressA_800 = LOW \<and> lastRawA pressA_800 = HIGH \<and>
   DEBOUNCE_MS < 851 - lastDebounceTimeA pressA_800 \<and>
   LONGPRESS_MS \<le> 851 - pressStartA pressA_800 \<and>
   debounceA 851 HIGH pressA_800 = pressA_800\<lparr>stableA := HIGH, lastRawA := HIGH\<rparr> \<and>
   stableA pressA_799 = LOW \<and> lastRawA pressA_799 = HIGH \<and>
   DEBOUNCE_MS < 850 - lastDebounceTimeA pressA_799 \<and>
   \<not> longAengaged pressA_799 \<and> 850 - pressStartA pressA_799 < LONGPRESS_MS \<and>
   debounceA 850 HIGH pressA_799
     = (shortClickA (pressA_799\<lparr>stableA := HIGH\<rparr>))\<lparr>lastRawA := HIGH\<rparr> \<and>
   stableB pressB_800 = LOW \<and> lastRawB pressB_800 = HIGH \<and>
   DEBOUNCE_MS < 851 - lastDebounceTimeB pressB_800 \<and>
   LONGPRESS_MS \<le> 851 - pressStartB pressB_800 \<and>
   debounceB 851 HIGH pressB_800 = pressB_800\<lparr>stableB := HIGH, lastRawB := HIGH\<rparr>"
proof -
  have a: "stableA pressA_800 = LOW \<and> lastRawA pressA_800 = HIGH \<and>
     DEBOUNCE_MS < 851 - lastDebounceTimeA pressA_800 \<and>
     LONGPRESS_MS \<le> 851 - pressStartA pressA_800"
    by code_simp
  have b: "stableA pressA_799 = LOW \<and> lastRawA pressA_799 = HIGH \<and>
     DEBOUNCE_MS < 850 - lastDebounceTimeA pressA_799 \<and>
     \<not> longAengaged pressA_799 \<and> 850 - pressStartA pressA_799 < LONGPRESS_MS"
    by code_simp
  have c: "stableB pressB_800 = LOW \<and> lastRawB pressB_800 = HIGH \<and>
     DEBOUNCE_MS < 851 - lastDebounceTimeB pressB_800 \<and>
     LONGPRESS_MS \<le> 851 - pressStartB pressB_800"
    by code_simp
  show ?thesis
    using a b c
      C4_release_at_threshold [of pressA_800 851 HIGH]
      C4_release_at_threshold [of pressA_799 850 HIGH]
      C4_release_at_threshold [of pressB_800 851 HIGH]
    by blast
qed

theorem C4_counterexample:
  "reachable pressA_800 \<and> stableA pressA_800 = LOW \<and>
   851 - pressStartA pressA_800 = LONGPRESS_MS \<and>
   stableA (loop 851 HIGH HIGH pressA_800) = HIGH \<and>
   currentMode pressA_800 = IDLE \<and>
   currentMode (loop 851 HIGH HIGH pressA_800) = IDLE \<and>
   \<not> isStopwatchRunning (loop 851 HIGH HIGH pressA_800) \<and>
   currentMode (shortClickA pressA_800) = STOPWATCH \<and>
   isStopwatchRunning (shortClickA pressA_800)"
proof -
  have "reachable pressA_800"
    unfolding pressA_800_def by (rule reachable_run) (rule reach_setup)
  moreover have "stableA pressA_800 = LOW \<and> 851 - pressStartA pressA_800 = LONGPRESS_MS \<and>
     currentMode pressA_800 = IDLE"
    by code_simp
  moreover have "stableA (loop 851 HIGH HIGH pressA_800) = HIGH \<and>
     currentMode (loop 851 HIGH HIGH pressA_800) = IDLE \<and>
     \<not> isStopwatchRunning (loop 851 HIGH HIGH pressA_800)"
    by code_simp
  moreover have "currentMode (shortClickA pressA_800) = STOPWATCH \<and>
     isStopwatchRunning (shortClickA pressA_800)"
    by code_simp
  ultimately show ?thesis by blast
qed

section \<open>Clock wraparound\<close>

text \<open>Reading and writing the globals of a state whose timestamps are shifted.\<close>

lemma shiftTime_read [simp]:
  "currentMode (shiftTime k s) = currentMode s"
  "stopwatchSeconds (shiftTime k s) = stopwatchSeconds s"
  "isStopwatchRunning (shiftTime k s) = isStopwatchRunning s"
  "initialCountdownSetting (shiftTime k s) = initialCountdownSetting s"
  "countdownSeconds (shiftTime k s) = countdownSeconds s"
  "isCountdownRunning (shiftTime k s) = isCountdownRunning s"
  "countdownFinished (shiftTime k s) = countdownFinished s"
  "lastRawA (shiftTime k s) = lastRawA s"
  "lastRawB (shiftTime k s) = lastRawB s"
  "lastDebounceTimeA (shiftTime k s) = lastDebounceTimeA s + k"
  "lastDebounceTimeB (shiftTime k s) = lastDebounceTimeB s + k"
  "stableA (shiftTime k s) = stableA s"
  "stableB (shiftTime k s) = stableB s"
  "pressStartA (shiftTime k s) = pressStartA s + k"
  "pressStartB (shiftTime k s) = pressStartB s + k"
  "longAengaged (shiftTime k s) = longAengaged s"
  "longBengaged (shiftTime k s) = longBengaged s"
  "lastHoldRepeatB (shiftTime k s) = lastHoldRepeatB s + k"
  "lastTick (shiftTime k s) = lastTick s + k"
  "lastLedToggle (shiftTime k s) = lastLedToggle s + k"
  "ledState (shiftTime k s) = ledState s"
  "lastShownMode (shiftTime k s) = lastShownMode s"
  "lastLine0 (shiftTime k s) = lastLine0 s"
  "lastLine1 (shiftTime k s) = lastLine1 s"
  "ledPin (shiftTime k s) = ledPin s"
  "out (shiftTime k s) = out s"
  by (simp_all add: shiftTime_def)

lemma shiftTime_write [simp]:
  "(shiftTime k s)\<lparr>currentMode := v0\<rparr> = shiftTime k (s\<lparr>currentMode := v0\<rparr>)"
  "(shiftTime k s)\<lparr>stopwatchSeconds := v1\<rparr> = shiftTime k (s\<lparr>stopwatchSeconds := v1\<rparr>)"
  "(shiftTime k s)\<lparr>isStopwatchRunning := v2\<rparr> = shiftTime k (s\<lparr>isStopwatchRunning := v2\<rparr>)"
  "(shiftTime k s)\<lparr>initialCountdownSetting := v3\<rparr> = shiftTime k (s\<lparr>initialCountdownSetting := v3\<rparr>)"
  "(shiftTime k s)\<lparr>countdownSeconds := v4\<rparr> = shiftTime k (s\<lparr>countdownSeconds := v4\<rparr>)"
  "(shiftTime k s)\<lparr>isCountdownRunning := v5\<rparr> = shiftTime k (s\<lparr>isCountdownRunning := v5\<rparr>)"
  "(shiftTime k s)\<lparr>countdownFinished := v6\<rparr> = shiftTime k (s\<lparr>countdownFinished := v6\<rparr>)"
  "(shiftTime k s)\<lparr>lastRawA := v7\<rparr> = shiftTime k (s\<lparr>lastRawA := v7\<rparr>)"
  "(shiftTime k s)\<lparr>lastRawB := v8\<rparr> = shiftTime k (s\<lparr>lastRawB := v8\<rparr>)"
  "(shiftTime k s)\<lparr>lastDebounceTimeA := t + k\<rparr> = shiftTime k (s\<lparr>lastDebounceTimeA := t\<rparr>)"
  "(shiftTime k s)\<lparr>lastDebounceTimeB := t + k\<rparr> = shiftTime k (s\<lparr>lastDebounceTimeB := t\<rparr>)"
  "(shiftTime k s)\<lparr>stableA := v11\<rparr> = shiftTime k (s\<lparr>stableA := v11\<rparr>)"
  "(shiftTime k s)\<lparr>stableB := v12\<rparr> = shiftTime k (s\<lparr>stableB := v12\<rparr>)"
  "(shiftTime k s)\<lparr>pressStartA := t + k\<rparr> = shiftTime k (s\<lparr>pressStartA := t\<rparr>)"
  "(shiftTime k s)\<lparr>pressStartB := t + k\<rparr> = shiftTime k (s\<lparr>pressStartB := t\<rparr>)"
  "(shiftTime k s)\<lparr>longAengaged := v15\<rparr> = shiftTime k (s\<lparr>longAengaged := v15\<rparr>)"
  "(shiftTime k s)\<lparr>longBengaged := v16\<rparr> = shiftTime k (s\<lparr>longBengaged := v16\<rparr>)"
  "(shiftTime k s)\<lparr>lastHoldRepeatB := t + k\<rparr> = shiftTime k (s\<lparr>lastHoldRepeatB := t\<rparr>)"
  "(shiftTime k s)\<lparr>lastTick := t + k\<rparr> = shiftTime k (s\<lparr>lastTick := t\<rparr>)"
  "(shiftTime k s)\<lparr>lastLedToggle := t + k\<rparr> = shiftTime k (s\<lparr>lastLedToggle := t\<rparr>)"
  "(shiftTime k s)\<lparr>ledState := v20\<rparr> = shiftTime k (s\<lparr>ledState := v20\<rparr>)"
  "(shiftTime k s)\<lparr>lastShownMode := v21\<rparr> = shiftTime k (s\<lparr>lastShownMode := v21\<rparr>)"
  "(shiftTime k s)\<lparr>lastLine0 := v22\<rparr> = shiftTime k (s\<lparr>lastLine0 := v22\<rparr>)"
  "(shiftTime k s)\<lparr>lastLine1 := v23\<rparr> = shiftTime k (s\<lparr>lastLine1 := v23\<rparr>)"
  "(shiftTime k s)\<lparr>ledPin := v24\<rparr> = shiftTime k (s\<lparr>ledPin := v24\<rparr>)"
  "(shiftTime k s)\<lparr>out := v25\<rparr> = shiftTime k (s\<lparr>out := v25\<rparr>)"
  by (simp_all add: shiftTime_def)

lemma shift_digitalWrite [simp]:
  "digitalWrite v (shiftTime k s) = shiftTime k (digitalWrite v s)"
  by (simp add: digitalWrite_def)

lemma shift_safePrintLine [simp]:
  "safePrintLine row txt (shiftTime k s) = shiftTime k (safePrintLine row txt s)"
  by (simp add: safePrintLine_def Let_def lcd_print_def lcd_setCursor_def)

lemma shift_invalidate [simp]: "invalidate (shiftTime k s) = shiftTime k (invalidate s)"
  by (simp add: invalidate_def)

lemma shift_lineText [simp]:
  "line0Text (shiftTime k s) = line0Text s"
  "line1Text (shiftTime k s) = line1Text s"
  by (cases "currentMode s"; simp add: line0Text_def line1Text_def)+

lemma shift_updateLCD [simp]: "updateLCD (shiftTime k s) = shiftTime k (updateLCD s)"
  by (simp add: updateLCD_texts Let_def)

lemma shift_shortClickA [simp]: "shortClickA (shiftTime k s) = shiftTime k (shortClickA s)"
  by (simp add: shortClickA_def)

lemma shift_shortClickB [simp]: "shortClickB (shiftTime k s) = shiftTime k (shortClickB s)"
  by (simp add: shortClickB_def Let_def)

lemma shift_debounceA:
  "debounceA (now + k) rawA (shiftTime k s) = shiftTime k (debounceA now rawA s)"
  by (simp add: debounceA_def Let_def)

lemma shift_debounceB:
  "debounceB (now + k) rawB (shiftTime k s) = shiftTime k (debounceB now rawB s)"
  by (simp add: debounceB_def Let_def)

lemma shift_holdA: "holdA (now + k) (shiftTime k s) = shiftTime k (holdA now s)"
  by (simp add: holdA_def resetEverything_def)

lemma shift_holdB: "holdB (now + k) (shiftTime k s) = shiftTime k (holdB now s)"
  by (simp add: holdB_def increaseCountdownSetting_def Let_def)

lemma shift_tick: "tick (now + k) (shiftTime k s) = shiftTime k (tick now s)"
  by (simp add: tick_def tickBody_def tickStopwatch_def tickCountdown_def Let_def)

lemma shift_ledBehavior:
  "ledBehavior (now + k) (shiftTime k s) = shiftTime k (ledBehavior now s)"
  by (simp add: ledBehavior_def toggleLed_def Let_def)

lemma shift_loop:
  "loop (now + k) rawA rawB (shiftTime k s) = shiftTime k (loop now rawA rawB s)"
  by (simp add: loop_def shift_debounceA shift_debounceB shift_holdA shift_holdB shift_tick
        shift_ledBehavior)

lemma shift_run: "run (shiftInputs k ins) (shiftTime k s) = shiftTime k (run ins s)"
  by (induction ins s rule: run.induct) (simp_all add: shiftInputs_def shift_loop)

text \<open>
  C9. Every timing decision of the loop compares the wrapping difference between \<open>now\<close> and
  a recorded timestamp with a constant, so a run in which every timestamp (the recorded
  ones and the readings of the clock) is moved by the same offset \<open>k\<close>, modulo \<open>2^32\<close>, goes
  through the same states up to that offset and issues the same peripheral writes.
\<close>

theorem C9_clock_offset:
  "run (shiftInputs k ins) (shiftTime k s) = shiftTime k (run ins s) \<and>
   out (run (shiftInputs k ins) (shiftTime k s)) = out (run ins s) \<and>
   ledPin (run (shiftInputs k ins) (shiftTime k s)) = ledPin (run ins s)"
  by (simp add: shift_run)

theorem C9_clock_offset_witness:
  "shiftInputs 4294967000 [(0, HIGH, LOW), (51, HIGH, LOW), (851, HIGH, LOW)]
     = [(4294967000, HIGH, LOW), (4294967051, HIGH, LOW), (555, HIGH, LOW)] \<and>
   initialCountdownSetting
     (run [(4294967000, HIGH, LOW), (4294967051, HIGH, LOW), (555, HIGH, LOW)]
        (shiftTime 4294967000 setup_state)) = 20"
proof -
  let ?ins = "[(0, HIGH, LOW), (51, HIGH, LOW), (851, HIGH, LOW)] :: (millis \<times> bool \<times> bool) list"
  have 1: "shiftInputs 4294967000 ?ins
     = [(4294967000, HIGH, LOW), (4294967051, HIGH, LOW), (555, HIGH, LOW)]"
    by (simp add: shiftInputs_def)
  have 2: "initialCountdownSetting (run ?ins setup_state) = 20"
    by code_simp
  have "initialCountdownSetting (run (shiftInputs 4294967000 ?ins) (shiftTime 4294967000 setup_state))
     = initialCountdownSetting (run ?ins setup_state)"
    using C9_clock_offset [of 4294967000 ?ins setup_state] by simp
  then show ?thesis using 1 2 by simp
qed

end
